theory Spec2Isabelle
  imports Main "HOL-Library.Word"
begin

section \<open>Values shared by the dictionary manager and the usort hints\<close>

text \<open>
  \<open>fp.Element\<close> is a residue modulo the STARK prime, kept in canonical form, so Go's
  \<open>==\<close> on it (and its use as a map key) is equality of the residue. It is modelled by
  the natural number below \<open>stark_prime\<close> that it denotes.
\<close>

type_synonym felt = nat

definition stark_prime :: nat where
  "stark_prime = 2 ^ 251 + 17 * 2 ^ 192 + 1"

text \<open>
  Modelled from the spec: the declaration of \<open>mem.MemoryValue\<close> is not among the sources.
  The spec gives a tagged union of field element and relocatable address plus the
  distinguished unknown value; \<open>CopyZeroDictionary\<close> shows the two fields \<open>Felt\<close> and
  \<open>Kind\<close>. \<open>UnknownValue\<close> is Go's zero value of the struct.
\<close>

datatype memoryValueKind = UnknownK | FeltK | AddrK

record MemoryValue =
  Felt :: felt
  Kind :: memoryValueKind

definition UnknownValue :: MemoryValue where
  "UnknownValue = \<lparr>Felt = 0, Kind = UnknownK\<rparr>"

text \<open>
  Modelled from the spec: \<open>mem.MemoryAddress\<close>, a (segment index, offset) pair; the
  manager's map is keyed by \<open>uint64\<close>, so both components are 64-bit words.
\<close>

record MemoryAddress =
  SegmentIndex :: "64 word"
  Offset :: "64 word"

text \<open>
  Go's \<open>error\<close> values. Each constructor stands for one message of the sources (or of the
  external collaborators described by the spec); panics of the Go runtime are errors too.
\<close>

datatype error =
    NoValueForKey felt                \<comment> \<open>\<open>no value for key: %v\<close>\<close>
  | NoDictionaryAt MemoryAddress      \<comment> \<open>\<open>no dictionary at address: %s\<close>\<close>
  | PanicNilMap                       \<comment> \<open>assignment to an entry of a nil map\<close>
  | PanicNilPointer                   \<comment> \<open>nil pointer dereference\<close>
  | VariableNotFound string           \<comment> \<open>scope lookup miss\<close>
  | CastPositionsArrayFailed          \<comment> \<open>\<open>casting positions into an array failed\<close>\<close>
  | AssertionLenPositionsFailed       \<comment> \<open>\<open>assertion `len(positions) == 0` failed\<close>\<close>
  | CastPositionsDictFailed           \<comment> \<open>\<open>casting positions_dict into an dictionary failed\<close>\<close>
  | CastPositionsInt64Failed          \<comment> \<open>\<open>cannot cast positionsInterface to []int64\<close>\<close>
  | CastCurrentPosFailed              \<comment> \<open>\<open>cannot cast current_pos to int64\<close>\<close>
  | CastLastPosFailed                 \<comment> \<open>\<open>cannot cast last_pos to int64\<close>\<close>
  | PopFromEmpty                      \<comment> \<open>\<open>utils.Pop\<close> on an empty slice\<close>
  | PanicIndexOutOfRange              \<comment> \<open>index out of range\<close>
  | OperandError string               \<comment> \<open>an operand could not be resolved\<close>
  | WriteConflict MemoryAddress       \<comment> \<open>write-once memory: the cell holds another value\<close>

section \<open>ZeroDictionary\<close>

text \<open>
  \<open>Data\<close> is a Go map and \<open>FreeOffset\<close> a \<open>*uint64\<close>: both are references, so two
  struct values can share them. The store below holds the map objects, the \<open>uint64\<close>
  cells and the \<open>ZeroDictionary\<close> structs that pointers refer to, each with the next
  address the allocator hands out. \<open>None\<close> is the nil map, respectively the nil pointer.
\<close>

record ZeroDictionary =
  Data :: "nat option"
  DefaultValue :: MemoryValue
  FreeOffset :: "nat option"

record store =
  maps :: "nat \<Rightarrow> (felt \<rightharpoonup> MemoryValue)"
  nextMap :: nat
  cells :: "nat \<Rightarrow> 64 word"
  nextCell :: nat
  dicts :: "nat \<Rightarrow> ZeroDictionary"
  nextDict :: nat

text \<open>Reading \<open>d.Data\<close>: a nil map reads as the empty map.\<close>

definition dataOf :: "store \<Rightarrow> ZeroDictionary \<Rightarrow> (felt \<rightharpoonup> MemoryValue)" where
  "dataOf st d = (case Data d of None \<Rightarrow> Map.empty | Some m \<Rightarrow> maps st m)"

definition at :: "ZeroDictionary \<Rightarrow> felt \<Rightarrow> store \<Rightarrow> (error + MemoryValue) \<times> store" where
  "at d key st =
     (case dataOf st d key of
        Some v \<Rightarrow> (Inr v, st)
      | None \<Rightarrow>
          if DefaultValue d \<noteq> UnknownValue then (Inr (DefaultValue d), st)
          else (Inl (NoValueForKey key), st))"

definition set_dict :: "ZeroDictionary \<Rightarrow> felt \<Rightarrow> MemoryValue \<Rightarrow> store \<Rightarrow> error option \<times> store" where
  "set_dict d key v st =
     (case Data d of
        None \<Rightarrow> (Some PanicNilMap, st)
      | Some m \<Rightarrow> (None, st\<lparr>maps := (maps st)(m := (maps st m)(key \<mapsto> v))\<rparr>))"

definition incrementFreeOffset :: "ZeroDictionary \<Rightarrow> 64 word \<Rightarrow> store \<Rightarrow> error option \<times> store" where
  "incrementFreeOffset d freeOffset st =
     (case FreeOffset d of
        None \<Rightarrow> (Some PanicNilPointer, st)
      | Some p \<Rightarrow> (None, st\<lparr>cells := (cells st)(p := cells st p + freeOffset)\<rparr>))"

definition setFreeOffset :: "ZeroDictionary \<Rightarrow> 64 word \<Rightarrow> store \<Rightarrow> error option \<times> store" where
  "setFreeOffset d freeOffset st =
     (case FreeOffset d of
        None \<Rightarrow> (Some PanicNilPointer, st)
      | Some p \<Rightarrow> (None, st\<lparr>cells := (cells st)(p := freeOffset)\<rparr>))"

section \<open>ZeroDictionaryManager\<close>

text \<open>
  The map from segment index to dictionary holds struct values: \<open>dict, ok := m[i]\<close>
  copies the struct, and the methods then work through the references inside the copy.

  The struct declares one field, \<open>Dictionaries\<close>; the constructors write it and
  \<open>GetDictionary\<close> reads it. The methods \<open>At\<close>, \<open>Set\<close>, \<open>IncrementFreeOffset\<close> and
  \<open>SetFreeOffset\<close> select \<open>dm.dictionaries\<close> instead, which the struct does not declare
  and nothing in the sources writes. The selector is therefore the first argument of
  their models, \<open>dictionaries\<close>, and \<open>dictionaries dm\<close> is what they read.
\<close>

record ZeroDictionaryManager =
  Dictionaries :: "64 word \<rightharpoonup> ZeroDictionary"

definition NewZeroDictionaryManager :: ZeroDictionaryManager where
  "NewZeroDictionaryManager = \<lparr>Dictionaries = Map.empty\<rparr>"

definition GetDictionary :: "ZeroDictionaryManager \<Rightarrow> MemoryAddress \<Rightarrow> error + ZeroDictionary" where
  "GetDictionary dm dictAddr =
     (case Dictionaries dm (SegmentIndex dictAddr) of
        Some dict \<Rightarrow> Inr dict
      | None \<Rightarrow> Inl (NoDictionaryAt dictAddr))"

definition At ::
  "(ZeroDictionaryManager \<Rightarrow> 64 word \<rightharpoonup> ZeroDictionary) \<Rightarrow> ZeroDictionaryManager \<Rightarrow>
   MemoryAddress \<Rightarrow> felt \<Rightarrow> store \<Rightarrow> (error + MemoryValue) \<times> store" where
  "At dictionaries dm dictAddr key st =
     (case dictionaries dm (SegmentIndex dictAddr) of
        Some dict \<Rightarrow> at dict key st
      | None \<Rightarrow> (Inl (NoDictionaryAt dictAddr), st))"

definition Set_dm ::
  "(ZeroDictionaryManager \<Rightarrow> 64 word \<rightharpoonup> ZeroDictionary) \<Rightarrow> ZeroDictionaryManager \<Rightarrow>
   MemoryAddress \<Rightarrow> felt \<Rightarrow> MemoryValue \<Rightarrow> store \<Rightarrow> error option \<times> store" where
  "Set_dm dictionaries dm dictAddr key v st =
     (case dictionaries dm (SegmentIndex dictAddr) of
        Some dict \<Rightarrow> set_dict dict key v st
      | None \<Rightarrow> (Some (NoDictionaryAt dictAddr), st))"

definition IncrementFreeOffset ::
  "(ZeroDictionaryManager \<Rightarrow> 64 word \<rightharpoonup> ZeroDictionary) \<Rightarrow> ZeroDictionaryManager \<Rightarrow>
   MemoryAddress \<Rightarrow> 64 word \<Rightarrow> store \<Rightarrow> error option \<times> store" where
  "IncrementFreeOffset dictionaries dm dictAddr incrementBy st =
     (case dictionaries dm (SegmentIndex dictAddr) of
        Some dict \<Rightarrow> incrementFreeOffset dict incrementBy st
      | None \<Rightarrow> (Some (NoDictionaryAt dictAddr), st))"

definition SetFreeOffset ::
  "(ZeroDictionaryManager \<Rightarrow> 64 word \<rightharpoonup> ZeroDictionary) \<Rightarrow> ZeroDictionaryManager \<Rightarrow>
   MemoryAddress \<Rightarrow> 64 word \<Rightarrow> store \<Rightarrow> error option \<times> store" where
  "SetFreeOffset dictionaries dm dictAddr freeOffset st =
     (case dictionaries dm (SegmentIndex dictAddr) of
        Some dict \<Rightarrow> setFreeOffset dict freeOffset st
      | None \<Rightarrow> (Some (NoDictionaryAt dictAddr), st))"

section \<open>CopyZeroDictionary\<close>

text \<open>
  The loop body of \<open>CopyZeroDictionary\<close>: the copy of one value, built field by field.
\<close>

definition valueCopy :: "MemoryValue \<Rightarrow> MemoryValue" where
  "valueCopy v = \<lparr>Felt = Felt v, Kind = Kind v\<rparr>"

text \<open>
  The function takes a pointer and returns a pointer to a new struct. The loop over
  \<open>dict.Data\<close> visits every entry once, in no fixed order, and stores the copied value
  under the copied key in a new map; keys are unique, so the order does not show in the
  result. A new \<open>uint64\<close> cell is allocated only when the source pointer is not nil.
  The error result is always nil; a nil argument panics at \<open>dict.Data\<close>.
\<close>

definition CopyZeroDictionary :: "nat option \<Rightarrow> store \<Rightarrow> (error + nat) \<times> store" where
  "CopyZeroDictionary dict st =
     (case dict of
        None \<Rightarrow> (Inl PanicNilPointer, st)
      | Some p \<Rightarrow>
          let d = dicts st p;
              dataCopy = nextMap st;
              st1 = st\<lparr>maps := (maps st)(dataCopy := map_option valueCopy \<circ> dataOf st d),
                       nextMap := Suc (nextMap st)\<rparr>;
              defaultValueCopy = DefaultValue d;
              (freeOffsetCopy, st2) =
                (case FreeOffset d of
                   None \<Rightarrow> (None, st1)
                 | Some q \<Rightarrow>
                     (Some (nextCell st1),
                      st1\<lparr>cells := (cells st1)(nextCell st1 := cells st1 q),
                          nextCell := Suc (nextCell st1)\<rparr>));
              r = nextDict st2
          in (Inr r,
              st2\<lparr>dicts := (dicts st2)(r := \<lparr>Data = Some dataCopy,
                                              DefaultValue = defaultValueCopy,
                                              FreeOffset = freeOffsetCopy\<rparr>),
                  nextDict := Suc (nextDict st2)\<rparr>))"

section \<open>Scopes, slices and the virtual machine\<close>

text \<open>
  A Go slice is a window onto a backing array: the array's address, the window's start
  and its length (the capacity is left out: nothing here appends or reslices past the
  length). Two slice values with the same address see each other's writes. The heap maps
  an address to the array's elements, kept as raw 64-bit words for \<open>uint64\<close> and
  \<open>int64\<close> alike. \<open>None\<close> is the nil slice's pointer.
\<close>

record slice =
  sl_arr :: "nat option"
  sl_off :: nat
  sl_len :: nat

type_synonym heap = "nat \<Rightarrow> 64 word list"

definition nilSlice :: slice where
  "nilSlice = \<lparr>sl_arr = None, sl_off = 0, sl_len = 0\<rparr>"

definition elems :: "heap \<Rightarrow> slice \<Rightarrow> 64 word list" where
  "elems h s = (case sl_arr s of None \<Rightarrow> [] | Some a \<Rightarrow> take (sl_len s) (drop (sl_off s) (h a)))"

text \<open>
  The payloads a scope variable (\<open>any\<close>) holds in these hints, one constructor per
  dynamic Go type, so that a type assertion is a match on the constructor. A
  \<open>map[fp.Element][]uint64\<close> is kept by value: no hint writes to such a map, only to the
  arrays behind its slices.
\<close>

datatype scopeValue =
    VFelt felt
  | VInt "64 word"
  | VInt64 "64 word"
  | VUint64 "64 word"
  | VSliceUint64 slice
  | VSliceInt64 slice
  | VMapFeltSliceUint64 "felt \<rightharpoonup> slice"

type_synonym frame = "string \<rightharpoonup> scopeValue"

text \<open>
  Modelled from the spec: the ScopeManager is not among the sources. It is a stack of
  frames of which only the top one, \<open>current\<close>, is seen by lookups and assignments;
  a lookup of an absent name fails with \<open>VariableNotFound\<close>; an assignment binds or
  overwrites names in the top frame; entering a scope pushes a frame holding exactly
  the given bindings.
\<close>

record ScopeManager =
  current :: frame
  enclosing :: "frame list"

definition GetVariableValue :: "string \<Rightarrow> ScopeManager \<Rightarrow> error + scopeValue" where
  "GetVariableValue name sm =
     (case current sm name of None \<Rightarrow> Inl (VariableNotFound name) | Some v \<Rightarrow> Inr v)"

definition AssignVariable :: "string \<Rightarrow> scopeValue \<Rightarrow> ScopeManager \<Rightarrow> ScopeManager" where
  "AssignVariable name v sm = sm\<lparr>current := (current sm)(name \<mapsto> v)\<rparr>"

fun AssignVariables :: "(string \<times> scopeValue) list \<Rightarrow> ScopeManager \<Rightarrow> ScopeManager" where
  "AssignVariables [] sm = sm"
| "AssignVariables ((name, v) # values) sm = AssignVariables values (AssignVariable name v sm)"

definition EnterScope :: "(string \<times> scopeValue) list \<Rightarrow> ScopeManager \<Rightarrow> ScopeManager" where
  "EnterScope values sm = \<lparr>current = map_of values, enclosing = current sm # enclosing sm\<rparr>"

text \<open>
  Modelled from the spec: the VM's memory, of which the hints use \<open>WriteToAddress\<close>: a
  write fails if the cell already holds a different value.
\<close>

record VirtualMachine =
  Memory :: "MemoryAddress \<rightharpoonup> MemoryValue"

definition WriteToAddress :: "MemoryAddress \<Rightarrow> MemoryValue \<Rightarrow> VirtualMachine \<Rightarrow> error + VirtualMachine" where
  "WriteToAddress addr v vm =
     (case Memory vm addr of
        None \<Rightarrow> Inr (vm\<lparr>Memory := (Memory vm)(addr \<mapsto> v)\<rparr>)
      | Some old \<Rightarrow> if old = v then Inr vm else Inl (WriteConflict addr))"

text \<open>
  Modelled from the spec: a resolved operand yields a memory address or a field element
  at run time, each from the VM alone and each fallible. The hint constructors take the
  operand as their argument.
\<close>

record ResOperander =
  GetAddress :: "VirtualMachine \<Rightarrow> error + MemoryAddress"
  resolveFelt :: "VirtualMachine \<Rightarrow> error + felt"

definition ResolveAsFelt :: "VirtualMachine \<Rightarrow> ResOperander \<Rightarrow> error + felt" where
  "ResolveAsFelt vm operander = resolveFelt operander vm"

text \<open>
  Modelled from the spec: \<open>memory.MemoryValueFromInt\<close> makes the field element of a
  signed integer, a negative one being its residue modulo the prime.
\<close>

definition MemoryValueFromInt :: "64 word \<Rightarrow> MemoryValue" where
  "MemoryValueFromInt v = \<lparr>Felt = nat (sint v mod int stark_prime), Kind = FeltK\<rparr>"

text \<open>
  Modelled from the spec: \<open>utils.Reverse\<close> and \<open>utils.Pop\<close> are not among the
  sources. \<open>Reverse\<close> reverses the slice's window of the backing array in place: its
  caller drops the result and goes on with the argument, which the test then expects
  reversed. \<open>Pop\<close> takes a pointer to a slice variable, fails on an empty slice and
  otherwise returns the last element and shortens that variable, and nothing else, by
  one.
\<close>

definition Reverse :: "slice \<Rightarrow> heap \<Rightarrow> heap" where
  "Reverse s h =
     (case sl_arr s of
        None \<Rightarrow> h
      | Some a \<Rightarrow>
          h(a := take (sl_off s) (h a) @ rev (take (sl_len s) (drop (sl_off s) (h a)))
                 @ drop (sl_off s + sl_len s) (h a)))"

definition Pop :: "slice \<Rightarrow> heap \<Rightarrow> error + (64 word \<times> slice)" where
  "Pop s h =
     (if sl_len s = 0 then Inl PopFromEmpty
      else case sl_arr s of
        None \<Rightarrow> Inl PanicNilPointer
      | Some a \<Rightarrow>
          if sl_off s + sl_len s - 1 < length (h a)
          then Inr (h a ! (sl_off s + sl_len s - 1), s\<lparr>sl_len := sl_len s - 1\<rparr>)
          else Inl PanicIndexOutOfRange)"

text \<open>
  What a hint's \<open>Op\<close> runs against: the VM, the runner context with its ScopeManager, and
  the heap of slice arrays. An \<open>Op\<close> returns Go's \<open>error\<close> (\<open>None\<close> is nil) with the state
  it leaves behind.
\<close>

record HintRunnerContext =
  scopeManager :: ScopeManager

record machine =
  vm :: VirtualMachine
  ctx :: HintRunnerContext
  heap :: heap

record GenericZeroHinter =
  Name :: string
  Op :: "machine \<Rightarrow> error option \<times> machine"

section \<open>The usort hints\<close>

definition newUsortEnterScopeHint :: GenericZeroHinter where
  "newUsortEnterScopeHint =
     \<lparr>Name = ''UsortEnterScope'',
      Op = (\<lambda>st.
        case GetVariableValue ''__usort_max_size'' (scopeManager (ctx st)) of
          Inl err \<Rightarrow> (Some err, st)
        | Inr usortMaxSize \<Rightarrow>
            (None,
             st\<lparr>ctx := (ctx st)\<lparr>scopeManager :=
                    EnterScope [(''__usort_max_size'', usortMaxSize)] (scopeManager (ctx st))\<rparr>\<rparr>))\<rparr>"

definition createUsortEnterScopeHinter :: "error + GenericZeroHinter" where
  "createUsortEnterScopeHinter = Inr newUsortEnterScopeHint"

definition newUsortVerifyMultiplicityAssertHint :: GenericZeroHinter where
  "newUsortVerifyMultiplicityAssertHint =
     \<lparr>Name = ''UsortVerifyMultiplicityAssert'',
      Op = (\<lambda>st.
        case GetVariableValue ''positions'' (scopeManager (ctx st)) of
          Inl err \<Rightarrow> (Some err, st)
        | Inr positionsInterface \<Rightarrow>
            (case positionsInterface of
               VSliceUint64 positions \<Rightarrow>
                 if sl_len positions \<noteq> 0 then (Some AssertionLenPositionsFailed, st)
                 else (None, st)
             | _ \<Rightarrow> (Some CastPositionsArrayFailed, st)))\<rparr>"

definition createUsortVerifyMultiplicityAssertHinter :: "error + GenericZeroHinter" where
  "createUsortVerifyMultiplicityAssertHinter = Inr newUsortEnterScopeHint"

definition newUsortVerifyHint :: "ResOperander \<Rightarrow> GenericZeroHinter" where
  "newUsortVerifyHint value =
     \<lparr>Name = ''UsortVerify'',
      Op = (\<lambda>st.
        case GetVariableValue ''positions_dict'' (scopeManager (ctx st)) of
          Inl err \<Rightarrow> (Some err, st)
        | Inr positionsDictInterface \<Rightarrow>
            (case positionsDictInterface of
               VMapFeltSliceUint64 positionsDict \<Rightarrow>
                 (case ResolveAsFelt (vm st) value of
                    Inl err \<Rightarrow> (Some err, st)
                  | Inr v \<Rightarrow>
                      let positions = (case positionsDict v of None \<Rightarrow> nilSlice | Some s \<Rightarrow> s);
                          st1 = st\<lparr>heap := Reverse positions (heap st)\<rparr>
                      in (None,
                          st1\<lparr>ctx := (ctx st1)\<lparr>scopeManager :=
                                 AssignVariables
                                   [(''last_pos'', VInt 0),
                                    (''positions'', VSliceUint64 positions)]
                                   (scopeManager (ctx st1))\<rparr>\<rparr>))
             | _ \<Rightarrow> (Some CastPositionsDictFailed, st)))\<rparr>"

definition newUsortVerifyMultiplicityBodyHint :: "ResOperander \<Rightarrow> GenericZeroHinter" where
  "newUsortVerifyMultiplicityBodyHint nextItemIndex =
     \<lparr>Name = ''UsortVerifyMultiplicityBody'',
      Op = (\<lambda>st.
        case GetVariableValue ''positions'' (scopeManager (ctx st)) of
          Inl err \<Rightarrow> (Some err, st)
        | Inr (VSliceInt64 positions) \<Rightarrow>
            (case Pop positions (heap st) of
               Inl err \<Rightarrow> (Some err, st)
             | Inr (newCurrentPos, positions') \<Rightarrow>
                 (case GetVariableValue ''current_pos'' (scopeManager (ctx st)) of
                    Inl err \<Rightarrow> (Some err, st)
                  | Inr (VInt64 currentPosInt) \<Rightarrow>
                      (case GetVariableValue ''last_pos'' (scopeManager (ctx st)) of
                         Inl err \<Rightarrow> (Some err, st)
                       | Inr (VInt64 lastPosInt) \<Rightarrow>
                           let newNextItemIndexValue = currentPosInt - lastPosInt;
                               newNextItemIndexMemoryValue = MemoryValueFromInt newNextItemIndexValue
                           in (case GetAddress nextItemIndex (vm st) of
                                 Inl err \<Rightarrow> (Some err, st)
                               | Inr addrNextItemIndex \<Rightarrow>
                                   (case WriteToAddress addrNextItemIndex newNextItemIndexMemoryValue (vm st) of
                                      Inl err \<Rightarrow> (Some err, st)
                                    | Inr vm' \<Rightarrow>
                                        (None,
                                         st\<lparr>vm := vm',
                                            ctx := (ctx st)\<lparr>scopeManager :=
                                              AssignVariables
                                                [(''current_pos'', VInt64 newCurrentPos),
                                                 (''last_pos'', VInt64 (currentPosInt + 1))]
                                                (scopeManager (ctx st))\<rparr>\<rparr>)))
                       | Inr _ \<Rightarrow> (Some CastLastPosFailed, st))
                  | Inr _ \<Rightarrow> (Some CastCurrentPosFailed, st)))
        | Inr _ \<Rightarrow> (Some CastPositionsInt64Failed, st))\<rparr>"

section \<open>Notions the properties are stated with\<close>

text \<open>
  What a client can see of the dictionary behind a pointer: the contents of its data
  map, its default value, and the value of its free-offset cell (\<open>None\<close> for a nil
  pointer).
\<close>

definition observe :: "store \<Rightarrow> nat \<Rightarrow> (felt \<rightharpoonup> MemoryValue) \<times> MemoryValue \<times> 64 word option" where
  "observe st p =
     (dataOf st (dicts st p), DefaultValue (dicts st p), map_option (cells st) (FreeOffset (dicts st p)))"

text \<open>
  The ways a dictionary behind a pointer \<open>p\<close> is mutated: the three mutating methods,
  called as \<open>p.set(k, v)\<close>, \<open>p.incrementFreeOffset(n)\<close>, \<open>p.setFreeOffset(n)\<close>, and the
  assignment \<open>p.DefaultValue = v\<close>. A panicking call leaves the store as it was.
\<close>

datatype mutation =
    MSet felt MemoryValue
  | MDefaultValue MemoryValue
  | MIncrementFreeOffset "64 word"
  | MSetFreeOffset "64 word"

fun mutate :: "mutation \<Rightarrow> nat \<Rightarrow> store \<Rightarrow> error option \<times> store" where
  "mutate (MSet k v) p st = set_dict (dicts st p) k v st"
| "mutate (MDefaultValue v) p st =
     (None, st\<lparr>dicts := (dicts st)(p := (dicts st p)\<lparr>DefaultValue := v\<rparr>)\<rparr>)"
| "mutate (MIncrementFreeOffset n) p st = incrementFreeOffset (dicts st p) n st"
| "mutate (MSetFreeOffset n) p st = setFreeOffset (dicts st p) n st"

fun mutates :: "(nat \<times> mutation) list \<Rightarrow> store \<Rightarrow> store" where
  "mutates [] st = st"
| "mutates ((p, m) # ms) st = mutates ms (snd (mutate m p st))"

text \<open>
  The allocator's invariant for the struct behind \<open>p\<close>: the struct, its map and its cell
  have been handed out already, so a later allocation returns none of them.
\<close>

definition allocated :: "store \<Rightarrow> nat \<Rightarrow> bool" where
  "allocated st p \<longleftrightarrow>
     p < nextDict st \<and>
     (case Data (dicts st p) of None \<Rightarrow> True | Some m \<Rightarrow> m < nextMap st) \<and>
     (case FreeOffset (dicts st p) of None \<Rightarrow> True | Some c \<Rightarrow> c < nextCell st)"

text \<open>Two structs that share neither their address, nor a map, nor a cell.\<close>

definition separate :: "store \<Rightarrow> nat \<Rightarrow> nat \<Rightarrow> bool" where
  "separate st p q \<longleftrightarrow>
     p \<noteq> q \<and>
     (Data (dicts st p) = None \<or> Data (dicts st p) \<noteq> Data (dicts st q)) \<and>
     (FreeOffset (dicts st p) = None \<or> FreeOffset (dicts st p) \<noteq> FreeOffset (dicts st q))"

section \<open>Concrete states\<close>

text \<open>
  A store with one dictionary: data \<open>{5: felt 7}\<close>, strict (unknown default), free
  offset 4; and the same dictionary with the default value \<open>felt 9\<close>.
\<close>

definition ex_strict :: ZeroDictionary where
  "ex_strict = \<lparr>Data = Some 0, DefaultValue = UnknownValue, FreeOffset = Some 0\<rparr>"

definition ex_default :: ZeroDictionary where
  "ex_default = \<lparr>Data = Some 0, DefaultValue = \<lparr>Felt = 9, Kind = FeltK\<rparr>, FreeOffset = Some 0\<rparr>"

definition ex_store :: store where
  "ex_store = \<lparr>maps = (\<lambda>_. Map.empty)(0 := [5 \<mapsto> \<lparr>Felt = 7, Kind = FeltK\<rparr>]), nextMap = 1,
               cells = (\<lambda>_. 0)(0 := 4), nextCell = 1,
               dicts = (\<lambda>_. ex_strict), nextDict = 1\<rparr>"

definition ex_manager :: ZeroDictionaryManager where
  "ex_manager = \<lparr>Dictionaries = [3 \<mapsto> ex_strict]\<rparr>"

text \<open>
  An operand that resolves to the address \<open>(1, 0)\<close> and to the field element \<open>0\<close>; a
  machine with empty memory, one scope frame and one backing array at address \<open>0\<close>;
  and the slice of the first \<open>n\<close> elements of that array.
\<close>

definition ex_operand :: ResOperander where
  "ex_operand = \<lparr>GetAddress = (\<lambda>_. Inr \<lparr>SegmentIndex = 1, Offset = 0\<rparr>), resolveFelt = (\<lambda>_. Inr 0)\<rparr>"

definition ex_machine :: "64 word list \<Rightarrow> frame \<Rightarrow> machine" where
  "ex_machine xs f =
     \<lparr>vm = \<lparr>Memory = Map.empty\<rparr>,
      ctx = \<lparr>scopeManager = \<lparr>current = f, enclosing = []\<rparr>\<rparr>,
      heap = (\<lambda>_. [])(0 := xs)\<rparr>"

definition ex_slice :: "nat \<Rightarrow> slice" where
  "ex_slice n = \<lparr>sl_arr = Some 0, sl_off = 0, sl_len = n\<rparr>"

section \<open>Dictionary lookup\<close>

text \<open>
  C3. \<open>at\<close> returns the stored value when the key is present; on a miss it returns the
  default value when that is not the unknown value, and fails with \<open>NoValueForKey\<close> when
  it is; in every case the store, and with it the dictionary's data, is what it was.
\<close>

theorem at_lookup:
  "(dataOf st d k = Some v \<longrightarrow> fst (at d k st) = Inr v) \<and>
   (dataOf st d k = None \<and> DefaultValue d \<noteq> UnknownValue \<longrightarrow> fst (at d k st) = Inr (DefaultValue d)) \<and>
   (dataOf st d k = None \<and> DefaultValue d = UnknownValue \<longrightarrow> fst (at d k st) = Inl (NoValueForKey k)) \<and>
   snd (at d k st) = st"
  by (simp add: at_def split: option.splits)

theorem at_lookup_witness:
  "dataOf ex_store ex_strict 5 = Some \<lparr>Felt = 7, Kind = FeltK\<rparr> \<and>
   fst (at ex_strict 5 ex_store) = Inr \<lparr>Felt = 7, Kind = FeltK\<rparr> \<and>
   dataOf ex_store ex_default 6 = None \<and> DefaultValue ex_default \<noteq> UnknownValue \<and>
   fst (at ex_default 6 ex_store) = Inr \<lparr>Felt = 9, Kind = FeltK\<rparr> \<and>
   dataOf ex_store ex_strict 6 = None \<and> DefaultValue ex_strict = UnknownValue \<and>
   fst (at ex_strict 6 ex_store) = Inl (NoValueForKey 6) \<and>
   snd (at ex_strict 6 ex_store) = ex_store"
  using at_lookup [of ex_store ex_strict 5 "\<lparr>Felt = 7, Kind = FeltK\<rparr>"]
        at_lookup [of ex_store ex_default 6]
        at_lookup [of ex_store ex_strict 6]
  by (simp add: dataOf_def ex_store_def ex_strict_def ex_default_def UnknownValue_def)

section \<open>The free offset\<close>

text \<open>
  C7. With a free-offset cell holding \<open>i\<close>, \<open>incrementFreeOffset n\<close> followed by
  \<open>incrementFreeOffset m\<close> leaves the store that a single \<open>setFreeOffset (i + n + m)\<close>
  leaves, the sum taken in \<open>uint64\<close>; neither call fails, and the cell then holds
  \<open>i + n + m\<close>.
\<close>

theorem increment_twice_is_set:
  "FreeOffset d = Some p \<Longrightarrow>
     incrementFreeOffset d m (snd (incrementFreeOffset d n st)) = setFreeOffset d (cells st p + n + m) st
     \<and> fst (incrementFreeOffset d n st) = None
     \<and> cells (snd (incrementFreeOffset d m (snd (incrementFreeOffset d n st)))) p = cells st p + n + m"
  by (simp add: incrementFreeOffset_def setFreeOffset_def)

theorem increment_twice_is_set_witness:
  "FreeOffset ex_strict = Some 0 \<and>
   incrementFreeOffset ex_strict 3 (snd (incrementFreeOffset ex_strict (- 1) ex_store))
     = setFreeOffset ex_strict 6 ex_store \<and>
   cells (snd (incrementFreeOffset ex_strict 3 (snd (incrementFreeOffset ex_strict (- 1) ex_store)))) 0 = 6"
  using increment_twice_is_set [of ex_strict 0 3 "- 1" ex_store]
  by (simp add: ex_strict_def ex_store_def incrementFreeOffset_def setFreeOffset_def)

section \<open>The manager\<close>

text \<open>
  \<open>GetDictionary\<close> depends on the segment index of the address only: two addresses of
  one segment resolve to the same dictionary; and it fails, with \<open>NoDictionaryAt\<close>,
  exactly when no dictionary is registered for the segment.
\<close>

lemma GetDictionary_by_segment:
  "(SegmentIndex a = SegmentIndex b \<longrightarrow>
      (GetDictionary dm a = Inr d \<longleftrightarrow> GetDictionary dm b = Inr d)) \<and>
   (GetDictionary dm a = Inl (NoDictionaryAt a) \<longleftrightarrow> Dictionaries dm (SegmentIndex a) = None) \<and>
   ((\<exists>e. GetDictionary dm a = Inl e) \<longleftrightarrow> Dictionaries dm (SegmentIndex a) = None)"
  by (auto simp: GetDictionary_def split: option.splits)

text \<open>
  The four delegating methods resolve through \<open>dictionaries dm\<close>. They do what the claim
  says only on the condition that this is the map \<open>GetDictionary\<close> resolves through,
  which the sources do not provide.
\<close>

lemma delegation_needs_the_declared_field:
  assumes "dictionaries dm = Dictionaries dm"
  shows "At dictionaries dm a k st
           = (case GetDictionary dm a of Inl e \<Rightarrow> (Inl e, st) | Inr dict \<Rightarrow> at dict k st)"
    and "Set_dm dictionaries dm a k v st
           = (case GetDictionary dm a of Inl e \<Rightarrow> (Some e, st) | Inr dict \<Rightarrow> set_dict dict k v st)"
    and "IncrementFreeOffset dictionaries dm a n st
           = (case GetDictionary dm a of Inl e \<Rightarrow> (Some e, st)
              | Inr dict \<Rightarrow> incrementFreeOffset dict n st)"
    and "SetFreeOffset dictionaries dm a n st
           = (case GetDictionary dm a of Inl e \<Rightarrow> (Some e, st)
              | Inr dict \<Rightarrow> setFreeOffset dict n st)"
  using assms
  by (simp_all add: GetDictionary_def At_def Set_dm_def IncrementFreeOffset_def SetFreeOffset_def
        split: option.splits)

text \<open>
  C4 does not hold of the code. A manager holds the strict dictionary \<open>{5: felt 7}\<close> for
  segment 3, so \<open>GetDictionary\<close> resolves the handle \<open>(3, 0)\<close> to it and the
  dictionary's own \<open>at\<close> finds key 5. The four methods do not go through that map: they
  read \<open>dm.dictionaries\<close>, and with that selector yielding a map that was never written
  (no constructor writes it) each of them reports that there is no dictionary at the
  address and leaves the store as it was.
\<close>

theorem manager_methods_read_undeclared_field:
  "GetDictionary ex_manager \<lparr>SegmentIndex = 3, Offset = 0\<rparr> = Inr ex_strict \<and>
   at ex_strict 5 ex_store = (Inr \<lparr>Felt = 7, Kind = FeltK\<rparr>, ex_store) \<and>
   At (\<lambda>dm. Map.empty) ex_manager \<lparr>SegmentIndex = 3, Offset = 0\<rparr> 5 ex_store
     = (Inl (NoDictionaryAt \<lparr>SegmentIndex = 3, Offset = 0\<rparr>), ex_store) \<and>
   Set_dm (\<lambda>dm. Map.empty) ex_manager \<lparr>SegmentIndex = 3, Offset = 0\<rparr> 8 \<lparr>Felt = 1, Kind = FeltK\<rparr> ex_store
     = (Some (NoDictionaryAt \<lparr>SegmentIndex = 3, Offset = 0\<rparr>), ex_store) \<and>
   IncrementFreeOffset (\<lambda>dm. Map.empty) ex_manager \<lparr>SegmentIndex = 3, Offset = 0\<rparr> 2 ex_store
     = (Some (NoDictionaryAt \<lparr>SegmentIndex = 3, Offset = 0\<rparr>), ex_store) \<and>
   SetFreeOffset (\<lambda>dm. Map.empty) ex_manager \<lparr>SegmentIndex = 3, Offset = 0\<rparr> 2 ex_store
     = (Some (NoDictionaryAt \<lparr>SegmentIndex = 3, Offset = 0\<rparr>), ex_store)"
  by (simp add: GetDictionary_def At_def Set_dm_def IncrementFreeOffset_def SetFreeOffset_def
        at_def dataOf_def ex_manager_def ex_strict_def ex_store_def)

section \<open>Copying a dictionary\<close>

lemma valueCopy_id: "valueCopy = id"
  by (rule ext) (simp add: valueCopy_def)

lemma valueCopy_map: "map_option valueCopy \<circ> f = f"
  by (simp add: valueCopy_id option.map_id0)

lemma separate_sym: "separate st p q \<Longrightarrow> separate st q p"
  by (auto simp: separate_def)

lemma copy_total: "\<exists>st'. CopyZeroDictionary (Some p) st = (Inr (nextDict st), st')"
  by (simp add: CopyZeroDictionary_def Let_def split: option.splits prod.splits)

lemma copy_observe:
  assumes "allocated st p" and "CopyZeroDictionary (Some p) st = (Inr q, st')"
  shows "observe st' q = observe st p" and "observe st' p = observe st p" and "separate st' p q"
  using assms
  by (auto simp: CopyZeroDictionary_def Let_def observe_def dataOf_def allocated_def separate_def
        valueCopy_map split: option.splits prod.splits)

lemma mutate_frame:
  "separate st p q \<Longrightarrow> observe (snd (mutate m p st)) q = observe st q"
  by (cases m; cases "FreeOffset (dicts st q)")
     (auto simp: separate_def observe_def dataOf_def set_dict_def incrementFreeOffset_def
        setFreeOffset_def split: option.splits)

lemma mutate_separate:
  "separate st p q \<Longrightarrow> separate (snd (mutate m r st)) p q"
  by (cases m)
     (auto simp: separate_def set_dict_def incrementFreeOffset_def setFreeOffset_def
        split: option.splits)

lemma mutates_separate:
  "separate st p q \<Longrightarrow> separate (mutates ms st) p q"
  by (induction ms arbitrary: st) (auto simp: mutate_separate)

text \<open>
  C8. \<open>CopyZeroDictionary\<close> of an allocated dictionary \<open>p\<close> returns a pointer \<open>q\<close> to a
  dictionary with the same data, default value and free offset, and leaves those of
  \<open>p\<close> as they were. From then on, after any sequence \<open>ms\<close> of mutations of any
  dictionaries, a mutation of the copy (a \<open>set\<close>, an assignment to its default value,
  \<open>incrementFreeOffset\<close> or \<open>setFreeOffset\<close>) leaves the data, default value and free
  offset of the original unchanged, and a mutation of the original leaves those of the
  copy unchanged.
\<close>

theorem copy_is_independent:
  assumes "allocated st p"
  shows "\<exists>q st'. CopyZeroDictionary (Some p) st = (Inr q, st') \<and>
           observe st' q = observe st p \<and>
           observe st' p = observe st p \<and>
           (\<forall>ms m. observe (snd (mutate m q (mutates ms st'))) p = observe (mutates ms st') p \<and>
                   observe (snd (mutate m p (mutates ms st'))) q = observe (mutates ms st') q)"
proof -
  obtain st' where c: "CopyZeroDictionary (Some p) st = (Inr (nextDict st), st')"
    using copy_total by blast
  have sep: "separate st' p (nextDict st)"
    using copy_observe(3) [OF assms c] .
  have "observe (snd (mutate m (nextDict st) (mutates ms st'))) p = observe (mutates ms st') p \<and>
        observe (snd (mutate m p (mutates ms st'))) (nextDict st) = observe (mutates ms st') (nextDict st)"
    for ms m
    using mutates_separate [OF sep, of ms] by (simp add: mutate_frame separate_sym)
  with c copy_observe(1,2) [OF assms c] show ?thesis by blast
qed

theorem copy_is_independent_witness:
  "allocated ex_store 0 \<and>
   (\<exists>q st'. CopyZeroDictionary (Some 0) ex_store = (Inr q, st') \<and>
      observe st' q = ([5 \<mapsto> \<lparr>Felt = 7, Kind = FeltK\<rparr>], UnknownValue, Some 4) \<and>
      observe (snd (mutate (MSet 5 \<lparr>Felt = 1, Kind = FeltK\<rparr>) q st')) 0
        = ([5 \<mapsto> \<lparr>Felt = 7, Kind = FeltK\<rparr>], UnknownValue, Some 4) \<and>
      observe (snd (mutate (MIncrementFreeOffset 3) 0 st')) q
        = ([5 \<mapsto> \<lparr>Felt = 7, Kind = FeltK\<rparr>], UnknownValue, Some 4))"
proof -
  have a: "allocated ex_store 0"
    by (simp add: allocated_def ex_store_def ex_strict_def)
  have o: "observe ex_store 0 = ([5 \<mapsto> \<lparr>Felt = 7, Kind = FeltK\<rparr>], UnknownValue, Some 4)"
    by (simp add: observe_def dataOf_def ex_store_def ex_strict_def)
  from copy_is_independent [OF a] obtain q st' where
    c: "CopyZeroDictionary (Some 0) ex_store = (Inr q, st')" and
    e: "observe st' q = observe ex_store 0" "observe st' 0 = observe ex_store 0" and
    f: "\<forall>ms m. observe (snd (mutate m q (mutates ms st'))) 0 = observe (mutates ms st') 0 \<and>
                observe (snd (mutate m 0 (mutates ms st'))) q = observe (mutates ms st') q"
    by blast
  from f [rule_format, of _ "[]"] have g:
    "observe (snd (mutate m q st')) 0 = observe st' 0"
    "observe (snd (mutate m 0 st')) q = observe st' q" for m
    by simp_all
  have "CopyZeroDictionary (Some 0) ex_store = (Inr q, st') \<and>
      observe st' q = ([5 \<mapsto> \<lparr>Felt = 7, Kind = FeltK\<rparr>], UnknownValue, Some 4) \<and>
      observe (snd (mutate (MSet 5 \<lparr>Felt = 1, Kind = FeltK\<rparr>) q st')) 0
        = ([5 \<mapsto> \<lparr>Felt = 7, Kind = FeltK\<rparr>], UnknownValue, Some 4) \<and>
      observe (snd (mutate (MIncrementFreeOffset 3) 0 st')) q
        = ([5 \<mapsto> \<lparr>Felt = 7, Kind = FeltK\<rparr>], UnknownValue, Some 4)"
    using c e o g by (simp del: mutate.simps)
  with a show ?thesis by blast
qed

section \<open>The multiplicity assertion\<close>

text \<open>
  C6. When \<open>positions\<close> is bound to a \<open>[]uint64\<close> in the current scope, the
  UsortVerifyMultiplicityAssert hint succeeds if its length is 0 and fails with the
  \<open>len(positions) == 0\<close> assertion error otherwise; either way the machine, and so the
  scope, is left as it was.
\<close>

theorem assert_hint:
  "current (scopeManager (ctx st)) ''positions'' = Some (VSliceUint64 s) \<Longrightarrow>
     Op newUsortVerifyMultiplicityAssertHint st =
       (if sl_len s = 0 then None else Some AssertionLenPositionsFailed, st)"
  by (simp add: newUsortVerifyMultiplicityAssertHint_def GetVariableValue_def)

theorem assert_hint_witness:
  "current (scopeManager (ctx (ex_machine [] [''positions'' \<mapsto> VSliceUint64 (ex_slice 0)]))) ''positions''
      = Some (VSliceUint64 (ex_slice 0)) \<and>
   Op newUsortVerifyMultiplicityAssertHint (ex_machine [] [''positions'' \<mapsto> VSliceUint64 (ex_slice 0)])
      = (None, ex_machine [] [''positions'' \<mapsto> VSliceUint64 (ex_slice 0)]) \<and>
   Op newUsortVerifyMultiplicityAssertHint (ex_machine [1] [''positions'' \<mapsto> VSliceUint64 (ex_slice 1)])
      = (Some AssertionLenPositionsFailed, ex_machine [1] [''positions'' \<mapsto> VSliceUint64 (ex_slice 1)])"
  using assert_hint [of "ex_machine [] [''positions'' \<mapsto> VSliceUint64 (ex_slice 0)]" "ex_slice 0"]
        assert_hint [of "ex_machine [1] [''positions'' \<mapsto> VSliceUint64 (ex_slice 1)]" "ex_slice 1"]
  by (simp add: ex_machine_def ex_slice_def)

section \<open>The verify hint\<close>

lemma elems_Reverse: "elems (Reverse s h) s = rev (elems h s)"
proof (cases "sl_arr s")
  case None
  then show ?thesis by (simp add: elems_def Reverse_def)
next
  case (Some a)
  have "take n (drop k (take k xs @ rev (take n (drop k xs)) @ drop (k + n) xs))
          = rev (take n (drop k xs))" for n k and xs :: "64 word list"
    by (cases "k \<le> length xs") (auto simp: min_def)
  with Some show ?thesis by (simp add: elems_def Reverse_def)
qed

lemma verify_hit:
  assumes "current (scopeManager (ctx st)) ''positions_dict'' = Some (VMapFeltSliceUint64 pd)"
    and "ResolveAsFelt (vm st) value = Inr v"
  shows "Op (newUsortVerifyHint value) st =
           (None, st\<lparr>heap := Reverse (case pd v of None \<Rightarrow> nilSlice | Some s \<Rightarrow> s) (heap st),
                     ctx := (ctx st)\<lparr>scopeManager := (scopeManager (ctx st))\<lparr>current :=
                       (current (scopeManager (ctx st)))
                         (''last_pos'' \<mapsto> VInt 0,
                          ''positions'' \<mapsto> VSliceUint64 (case pd v of None \<Rightarrow> nilSlice | Some s \<Rightarrow> s))\<rparr>\<rparr>\<rparr>)"
  using assms
  by (simp add: newUsortVerifyHint_def GetVariableValue_def Let_def AssignVariable_def)

text \<open>
  C5, as the claim states it, fails: with no \<open>positions_dict\<close> in the scope the hint
  returns the scope manager's lookup error, not the casting error.
\<close>

theorem verify_absent_is_not_a_cast_error:
  "current (scopeManager (ctx (ex_machine [] Map.empty))) ''positions_dict'' = None \<and>
   Op (newUsortVerifyHint ex_operand) (ex_machine [] Map.empty)
     = (Some (VariableNotFound ''positions_dict''), ex_machine [] Map.empty) \<and>
   fst (Op (newUsortVerifyHint ex_operand) (ex_machine [] Map.empty)) \<noteq> Some CastPositionsDictFailed"
  by (simp add: newUsortVerifyHint_def GetVariableValue_def ex_machine_def)

text \<open>
  C5, amended. When \<open>positions_dict\<close> is bound to a \<open>map[fp.Element][]uint64\<close> and the
  operand resolves to one of its keys \<open>v\<close>, the UsortVerify hint succeeds, binds
  \<open>last_pos\<close> to 0 and \<open>positions\<close> to the slice stored under \<open>v\<close> in the current scope
  (nothing else of the scope changes), and that slice then reads as the reverse of what
  it read before. When \<open>positions_dict\<close> is absent the hint fails with the scope
  manager's \<open>VariableNotFound\<close> error; when it is bound to a value of another type the
  hint fails with the casting error. A failing call leaves the machine as it was.
\<close>

theorem verify_hint:
  "(current (scopeManager (ctx st)) ''positions_dict'' = Some (VMapFeltSliceUint64 pd) \<and>
    ResolveAsFelt (vm st) value = Inr v \<and> pd v = Some s \<longrightarrow>
      fst (Op (newUsortVerifyHint value) st) = None \<and>
      current (scopeManager (ctx (snd (Op (newUsortVerifyHint value) st))))
        = (current (scopeManager (ctx st)))(''last_pos'' \<mapsto> VInt 0, ''positions'' \<mapsto> VSliceUint64 s) \<and>
      enclosing (scopeManager (ctx (snd (Op (newUsortVerifyHint value) st))))
        = enclosing (scopeManager (ctx st)) \<and>
      elems (heap (snd (Op (newUsortVerifyHint value) st))) s = rev (elems (heap st) s)) \<and>
   (current (scopeManager (ctx st)) ''positions_dict'' = None \<longrightarrow>
      Op (newUsortVerifyHint value) st = (Some (VariableNotFound ''positions_dict''), st)) \<and>
   (current (scopeManager (ctx st)) ''positions_dict'' = Some x \<and> (\<forall>m. x \<noteq> VMapFeltSliceUint64 m) \<longrightarrow>
      Op (newUsortVerifyHint value) st = (Some CastPositionsDictFailed, st))"
proof (intro conjI impI)
  assume a: "current (scopeManager (ctx st)) ''positions_dict'' = Some (VMapFeltSliceUint64 pd) \<and>
    ResolveAsFelt (vm st) value = Inr v \<and> pd v = Some s"
  then have 1: "Op (newUsortVerifyHint value) st =
           (None, st\<lparr>heap := Reverse s (heap st),
                     ctx := (ctx st)\<lparr>scopeManager := (scopeManager (ctx st))\<lparr>current :=
                       (current (scopeManager (ctx st)))
                         (''last_pos'' \<mapsto> VInt 0, ''positions'' \<mapsto> VSliceUint64 s)\<rparr>\<rparr>\<rparr>)"
    using verify_hit [of st pd "value" v] by simp
  show "fst (Op (newUsortVerifyHint value) st) = None" by (simp add: 1)
  show "current (scopeManager (ctx (snd (Op (newUsortVerifyHint value) st))))
        = (current (scopeManager (ctx st)))(''last_pos'' \<mapsto> VInt 0, ''positions'' \<mapsto> VSliceUint64 s)"
    by (simp add: 1)
  show "enclosing (scopeManager (ctx (snd (Op (newUsortVerifyHint value) st))))
        = enclosing (scopeManager (ctx st))" by (simp add: 1)
  show "elems (heap (snd (Op (newUsortVerifyHint value) st))) s = rev (elems (heap st) s)"
    by (simp add: 1 elems_Reverse)
next
  assume "current (scopeManager (ctx st)) ''positions_dict'' = None"
  then show "Op (newUsortVerifyHint value) st = (Some (VariableNotFound ''positions_dict''), st)"
    by (simp add: newUsortVerifyHint_def GetVariableValue_def)
next
  assume "current (scopeManager (ctx st)) ''positions_dict'' = Some x \<and> (\<forall>m. x \<noteq> VMapFeltSliceUint64 m)"
  then show "Op (newUsortVerifyHint value) st = (Some CastPositionsDictFailed, st)"
    by (cases x) (simp_all add: newUsortVerifyHint_def GetVariableValue_def)
qed

theorem verify_hint_witness:
  "elems (heap (ex_machine [1, 2, 3] [''positions_dict'' \<mapsto> VMapFeltSliceUint64 [0 \<mapsto> ex_slice 3]])) (ex_slice 3)
     = [1, 2, 3] \<and>
   fst (Op (newUsortVerifyHint ex_operand)
       (ex_machine [1, 2, 3] [''positions_dict'' \<mapsto> VMapFeltSliceUint64 [0 \<mapsto> ex_slice 3]])) = None \<and>
   current (scopeManager (ctx (snd (Op (newUsortVerifyHint ex_operand)
       (ex_machine [1, 2, 3] [''positions_dict'' \<mapsto> VMapFeltSliceUint64 [0 \<mapsto> ex_slice 3]])))))
     = [''positions_dict'' \<mapsto> VMapFeltSliceUint64 [0 \<mapsto> ex_slice 3],
        ''last_pos'' \<mapsto> VInt 0, ''positions'' \<mapsto> VSliceUint64 (ex_slice 3)] \<and>
   elems (heap (snd (Op (newUsortVerifyHint ex_operand)
       (ex_machine [1, 2, 3] [''positions_dict'' \<mapsto> VMapFeltSliceUint64 [0 \<mapsto> ex_slice 3]])))) (ex_slice 3)
     = [3, 2, 1] \<and>
   Op (newUsortVerifyHint ex_operand) (ex_machine [] Map.empty)
     = (Some (VariableNotFound ''positions_dict''), ex_machine [] Map.empty) \<and>
   Op (newUsortVerifyHint ex_operand) (ex_machine [] [''positions_dict'' \<mapsto> VInt 0])
     = (Some CastPositionsDictFailed, ex_machine [] [''positions_dict'' \<mapsto> VInt 0])"
proof -
  let ?m = "ex_machine [1, 2, 3] [''positions_dict'' \<mapsto> VMapFeltSliceUint64 [0 \<mapsto> ex_slice 3]]"
  have a: "current (scopeManager (ctx ?m)) ''positions_dict'' = Some (VMapFeltSliceUint64 [0 \<mapsto> ex_slice 3])"
    by (simp add: ex_machine_def)
  have b: "ResolveAsFelt (vm ?m) ex_operand = Inr 0"
    by (simp add: ResolveAsFelt_def ex_operand_def)
  have c: "[0 \<mapsto> ex_slice 3] (0::nat) = Some (ex_slice 3)"
    by simp
  have e: "elems (heap ?m) (ex_slice 3) = [1, 2, 3]"
    by (simp add: elems_def ex_machine_def ex_slice_def)
  have f: "current (scopeManager (ctx ?m)) = [''positions_dict'' \<mapsto> VMapFeltSliceUint64 [0 \<mapsto> ex_slice 3]]"
    by (simp add: ex_machine_def)
  have g: "current (scopeManager (ctx (ex_machine [] Map.empty))) ''positions_dict'' = None"
    by (simp add: ex_machine_def)
  have h: "current (scopeManager (ctx (ex_machine [] [''positions_dict'' \<mapsto> VInt 0]))) ''positions_dict''
             = Some (VInt 0) \<and> (\<forall>m. VInt 0 \<noteq> VMapFeltSliceUint64 m)"
    by (simp add: ex_machine_def)
  from verify_hint [of ?m "[0 \<mapsto> ex_slice 3]" ex_operand 0 "ex_slice 3"] a b c
  have 1: "fst (Op (newUsortVerifyHint ex_operand) ?m) = None"
    and 2: "current (scopeManager (ctx (snd (Op (newUsortVerifyHint ex_operand) ?m))))
        = (current (scopeManager (ctx ?m)))(''last_pos'' \<mapsto> VInt 0, ''positions'' \<mapsto> VSliceUint64 (ex_slice 3))"
    and 3: "elems (heap (snd (Op (newUsortVerifyHint ex_operand) ?m))) (ex_slice 3) = rev (elems (heap ?m) (ex_slice 3))"
    by blast+
  from verify_hint [of "ex_machine [] Map.empty" _ ex_operand] g
  have 4: "Op (newUsortVerifyHint ex_operand) (ex_machine [] Map.empty)
     = (Some (VariableNotFound ''positions_dict''), ex_machine [] Map.empty)"
    by blast
  from verify_hint [of "ex_machine [] [''positions_dict'' \<mapsto> VInt 0]" _ ex_operand _ _ "VInt 0"] h
  have 5: "Op (newUsortVerifyHint ex_operand) (ex_machine [] [''positions_dict'' \<mapsto> VInt 0])
     = (Some CastPositionsDictFailed, ex_machine [] [''positions_dict'' \<mapsto> VInt 0])"
    by blast
  show ?thesis
    unfolding 1 2 3 4 5 e f by simp
qed

text \<open>
  C9. When the operand resolves to a key \<open>v\<close> of \<open>positions_dict\<close> with slice \<open>s\<close>, a
  successful UsortVerify leaves \<open>positions_dict\<close> bound to the same map and binds
  \<open>positions\<close> to \<open>s\<close> itself, the slice the map holds under \<open>v\<close>, with the same backing
  array and not a copy; read through that slice, the array now holds the reversed
  order, so \<open>positions_dict[v]\<close> is reversed too. A second UsortVerify succeeds as well
  and restores the original order.
\<close>

theorem verify_reverses_in_place:
  assumes "current (scopeManager (ctx st)) ''positions_dict'' = Some (VMapFeltSliceUint64 pd)"
    and "ResolveAsFelt (vm st) value = Inr v"
    and "pd v = Some s"
  shows "fst (Op (newUsortVerifyHint value) st) = None \<and>
         current (scopeManager (ctx (snd (Op (newUsortVerifyHint value) st)))) ''positions_dict''
           = Some (VMapFeltSliceUint64 pd) \<and>
         current (scopeManager (ctx (snd (Op (newUsortVerifyHint value) st)))) ''positions''
           = Some (VSliceUint64 s) \<and>
         elems (heap (snd (Op (newUsortVerifyHint value) st))) s = rev (elems (heap st) s) \<and>
         fst (Op (newUsortVerifyHint value) (snd (Op (newUsortVerifyHint value) st))) = None \<and>
         elems (heap (snd (Op (newUsortVerifyHint value) (snd (Op (newUsortVerifyHint value) st))))) s
           = elems (heap st) s"
proof -
  let ?st1 = "snd (Op (newUsortVerifyHint value) st)"
  have 1: "Op (newUsortVerifyHint value) st =
           (None, st\<lparr>heap := Reverse s (heap st),
                     ctx := (ctx st)\<lparr>scopeManager := (scopeManager (ctx st))\<lparr>current :=
                       (current (scopeManager (ctx st)))
                         (''last_pos'' \<mapsto> VInt 0, ''positions'' \<mapsto> VSliceUint64 s)\<rparr>\<rparr>\<rparr>)"
    using verify_hit [OF assms(1,2)] assms(3) by simp
  have d: "current (scopeManager (ctx ?st1)) ''positions_dict'' = Some (VMapFeltSliceUint64 pd)"
    using assms(1) by (simp add: 1)
  have r: "ResolveAsFelt (vm ?st1) value = Inr v"
    using assms(2) by (simp add: 1)
  have 2: "Op (newUsortVerifyHint value) ?st1 =
           (None, ?st1\<lparr>heap := Reverse s (heap ?st1),
                     ctx := (ctx ?st1)\<lparr>scopeManager := (scopeManager (ctx ?st1))\<lparr>current :=
                       (current (scopeManager (ctx ?st1)))
                         (''last_pos'' \<mapsto> VInt 0, ''positions'' \<mapsto> VSliceUint64 s)\<rparr>\<rparr>\<rparr>)"
    using verify_hit [OF d r] assms(3) by simp
  have h1: "heap ?st1 = Reverse s (heap st)"
    by (simp add: 1)
  have h2: "heap (snd (Op (newUsortVerifyHint value) ?st1)) = Reverse s (Reverse s (heap st))"
    by (simp add: 2 h1)
  show ?thesis
  proof (intro conjI)
    show "fst (Op (newUsortVerifyHint value) st) = None" by (simp add: 1)
    show "current (scopeManager (ctx ?st1)) ''positions_dict'' = Some (VMapFeltSliceUint64 pd)" by (rule d)
    show "current (scopeManager (ctx ?st1)) ''positions'' = Some (VSliceUint64 s)" by (simp add: 1)
    show "elems (heap ?st1) s = rev (elems (heap st) s)" by (simp add: h1 elems_Reverse)
    show "fst (Op (newUsortVerifyHint value) ?st1) = None" by (simp add: 2)
    show "elems (heap (snd (Op (newUsortVerifyHint value) ?st1))) s = elems (heap st) s"
      by (simp add: h2 elems_Reverse)
  qed
qed

theorem verify_reverses_in_place_witness:
  "current (scopeManager (ctx (ex_machine [1, 2, 3] [''positions_dict'' \<mapsto> VMapFeltSliceUint64 [0 \<mapsto> ex_slice 3]])))
       ''positions_dict'' = Some (VMapFeltSliceUint64 [0 \<mapsto> ex_slice 3]) \<and>
   ResolveAsFelt (vm (ex_machine [1, 2, 3] [''positions_dict'' \<mapsto> VMapFeltSliceUint64 [0 \<mapsto> ex_slice 3]])) ex_operand = Inr 0 \<and>
   [0 \<mapsto> ex_slice 3] (0::nat) = Some (ex_slice 3) \<and>
   elems (heap (ex_machine [1, 2, 3] [''positions_dict'' \<mapsto> VMapFeltSliceUint64 [0 \<mapsto> ex_slice 3]])) (ex_slice 3) = [1, 2, 3] \<and>
   elems (heap (snd (Op (newUsortVerifyHint ex_operand)
       (ex_machine [1, 2, 3] [''positions_dict'' \<mapsto> VMapFeltSliceUint64 [0 \<mapsto> ex_slice 3]])))) (ex_slice 3) = [3, 2, 1] \<and>
   elems (heap (snd (Op (newUsortVerifyHint ex_operand) (snd (Op (newUsortVerifyHint ex_operand)
       (ex_machine [1, 2, 3] [''positions_dict'' \<mapsto> VMapFeltSliceUint64 [0 \<mapsto> ex_slice 3]])))))) (ex_slice 3)
     = [1, 2, 3]"
proof -
  let ?m = "ex_machine [1, 2, 3] [''positions_dict'' \<mapsto> VMapFeltSliceUint64 [0 \<mapsto> ex_slice 3]]"
  have a: "current (scopeManager (ctx ?m)) ''positions_dict'' = Some (VMapFeltSliceUint64 [0 \<mapsto> ex_slice 3])"
    by (simp add: ex_machine_def)
  have b: "ResolveAsFelt (vm ?m) ex_operand = Inr 0"
    by (simp add: ResolveAsFelt_def ex_operand_def)
  have c: "[0 \<mapsto> ex_slice 3] (0::nat) = Some (ex_slice 3)"
    by simp
  have e: "elems (heap ?m) (ex_slice 3) = [1, 2, 3]"
    by (simp add: elems_def ex_machine_def ex_slice_def)
  from verify_reverses_in_place [OF a b c] e a b c show ?thesis by simp
qed

text \<open>
  C10. When \<open>positions_dict\<close> is bound to a map of which the resolved operand value is
  not a key, UsortVerify does not fail: it binds \<open>positions\<close> to the nil \<open>[]uint64\<close>,
  which has no elements, and \<open>last_pos\<close> to 0 in the current scope and changes nothing
  else; UsortVerifyMultiplicityAssert run directly on the resulting machine succeeds.
\<close>

theorem verify_missing_key:
  assumes "current (scopeManager (ctx st)) ''positions_dict'' = Some (VMapFeltSliceUint64 pd)"
    and "ResolveAsFelt (vm st) value = Inr v"
    and "pd v = None"
  shows "Op (newUsortVerifyHint value) st =
           (None, st\<lparr>ctx := (ctx st)\<lparr>scopeManager := (scopeManager (ctx st))\<lparr>current :=
                       (current (scopeManager (ctx st)))
                         (''last_pos'' \<mapsto> VInt 0, ''positions'' \<mapsto> VSliceUint64 nilSlice)\<rparr>\<rparr>\<rparr>) \<and>
         elems (heap (snd (Op (newUsortVerifyHint value) st))) nilSlice = [] \<and>
         Op newUsortVerifyMultiplicityAssertHint (snd (Op (newUsortVerifyHint value) st))
           = (None, snd (Op (newUsortVerifyHint value) st))"
proof -
  have 1: "Op (newUsortVerifyHint value) st =
           (None, st\<lparr>ctx := (ctx st)\<lparr>scopeManager := (scopeManager (ctx st))\<lparr>current :=
                       (current (scopeManager (ctx st)))
                         (''last_pos'' \<mapsto> VInt 0, ''positions'' \<mapsto> VSliceUint64 nilSlice)\<rparr>\<rparr>\<rparr>)"
    using verify_hit [OF assms(1,2)] assms(3) by (simp add: Reverse_def nilSlice_def)
  have 2: "elems (heap (snd (Op (newUsortVerifyHint value) st))) nilSlice = []"
    by (simp add: elems_def nilSlice_def)
  have 3: "Op newUsortVerifyMultiplicityAssertHint (snd (Op (newUsortVerifyHint value) st))
           = (None, snd (Op (newUsortVerifyHint value) st))"
    unfolding 1
    by (simp add: newUsortVerifyMultiplicityAssertHint_def GetVariableValue_def nilSlice_def)
  from 1 2 3 show ?thesis by blast
qed

theorem verify_missing_key_witness:
  "current (scopeManager (ctx (ex_machine [1, 2, 3] [''positions_dict'' \<mapsto> VMapFeltSliceUint64 [7 \<mapsto> ex_slice 3]])))
       ''positions_dict'' = Some (VMapFeltSliceUint64 [7 \<mapsto> ex_slice 3]) \<and>
   ResolveAsFelt (vm (ex_machine [1, 2, 3] [''positions_dict'' \<mapsto> VMapFeltSliceUint64 [7 \<mapsto> ex_slice 3]])) ex_operand = Inr 0 \<and>
   [7 \<mapsto> ex_slice 3] (0::nat) = None \<and>
   fst (Op (newUsortVerifyHint ex_operand)
       (ex_machine [1, 2, 3] [''positions_dict'' \<mapsto> VMapFeltSliceUint64 [7 \<mapsto> ex_slice 3]])) = None \<and>
   fst (Op newUsortVerifyMultiplicityAssertHint (snd (Op (newUsortVerifyHint ex_operand)
       (ex_machine [1, 2, 3] [''positions_dict'' \<mapsto> VMapFeltSliceUint64 [7 \<mapsto> ex_slice 3]])))) = None"
proof -
  let ?m = "ex_machine [1, 2, 3] [''positions_dict'' \<mapsto> VMapFeltSliceUint64 [7 \<mapsto> ex_slice 3]]"
  have a: "current (scopeManager (ctx ?m)) ''positions_dict'' = Some (VMapFeltSliceUint64 [7 \<mapsto> ex_slice 3])"
    by (simp add: ex_machine_def)
  have b: "ResolveAsFelt (vm ?m) ex_operand = Inr 0"
    by (simp add: ResolveAsFelt_def ex_operand_def)
  have c: "[7 \<mapsto> ex_slice 3] (0::nat) = None"
    by simp
  note t = verify_missing_key [OF a b c]
  have 1: "fst (Op (newUsortVerifyHint ex_operand) ?m) = None"
    using t [THEN conjunct1] by simp
  have 3: "fst (Op newUsortVerifyMultiplicityAssertHint (snd (Op (newUsortVerifyHint ex_operand) ?m))) = None"
    using t [THEN conjunct2, THEN conjunct2] by simp
  from a b c 1 3 show ?thesis by blast
qed

section \<open>The multiplicity body and the assertion's constructor\<close>

text \<open>
  C1 does not hold of the code. On the scope of the repository's own test, \<open>positions =
  [8, 6, 4]\<close> and \<open>last_pos = 2\<close>, the hint pops \<open>positions\<close> and then looks \<open>current_pos\<close>
  up in the scope, where it is not bound: it fails with \<open>VariableNotFound\<close>, writes
  nothing and leaves the scope as it was.
\<close>

theorem body_reads_current_pos_from_scope:
  "Op (newUsortVerifyMultiplicityBodyHint ex_operand)
      (ex_machine [8, 6, 4] [''positions'' \<mapsto> VSliceInt64 (ex_slice 3), ''last_pos'' \<mapsto> VInt64 2])
     = (Some (VariableNotFound ''current_pos''),
        ex_machine [8, 6, 4] [''positions'' \<mapsto> VSliceInt64 (ex_slice 3), ''last_pos'' \<mapsto> VInt64 2])"
  by (simp add: newUsortVerifyMultiplicityBodyHint_def GetVariableValue_def Pop_def ex_machine_def
        ex_slice_def)

text \<open>
  With \<open>current_pos = 7\<close> bound as well, the hint succeeds, and the stored value, not the
  popped 4, drives both results: the cell gets \<open>7 - 2 = 5\<close> and \<open>last_pos\<close> becomes 8;
  the popped 4 goes to \<open>current_pos\<close>, and \<open>positions\<close> in the scope keeps its three
  elements.
\<close>

lemma body_with_stored_current_pos:
  "Op (newUsortVerifyMultiplicityBodyHint ex_operand)
      (ex_machine [8, 6, 4]
         [''positions'' \<mapsto> VSliceInt64 (ex_slice 3), ''last_pos'' \<mapsto> VInt64 2, ''current_pos'' \<mapsto> VInt64 7])
     = (None,
        \<lparr>vm = \<lparr>Memory = [\<lparr>SegmentIndex = 1, Offset = 0\<rparr> \<mapsto> \<lparr>Felt = 5, Kind = FeltK\<rparr>]\<rparr>,
         ctx = \<lparr>scopeManager = \<lparr>current =
                  [''positions'' \<mapsto> VSliceInt64 (ex_slice 3), ''last_pos'' \<mapsto> VInt64 8,
                   ''current_pos'' \<mapsto> VInt64 4],
                enclosing = []\<rparr>\<rparr>,
         heap = (\<lambda>_. [])(0 := [8, 6, 4])\<rparr>)"
  by (simp add: newUsortVerifyMultiplicityBodyHint_def GetVariableValue_def Pop_def ex_machine_def
        ex_slice_def MemoryValueFromInt_def WriteToAddress_def ex_operand_def AssignVariable_def
        stark_prime_def fun_upd_twist)

text \<open>
  C2 does not hold of the code. \<open>createUsortVerifyMultiplicityAssertHinter\<close> returns the
  UsortEnterScope hint. With \<open>positions = [1]\<close> in the scope that hint fails for want of
  \<open>__usort_max_size\<close>, and with \<open>__usort_max_size\<close> bound as well it succeeds and
  enters a new scope, where \<open>newUsortVerifyMultiplicityAssertHint\<close> fails with the
  assertion error.
\<close>

theorem assert_constructor_builds_enter_scope:
  "(case createUsortVerifyMultiplicityAssertHinter of
      Inl e \<Rightarrow> False
    | Inr h \<Rightarrow>
        Name h = ''UsortEnterScope'' \<and>
        Op h (ex_machine [1] [''positions'' \<mapsto> VSliceUint64 (ex_slice 1)])
          = (Some (VariableNotFound ''__usort_max_size''),
             ex_machine [1] [''positions'' \<mapsto> VSliceUint64 (ex_slice 1)]) \<and>
        Op h (ex_machine [1] [''positions'' \<mapsto> VSliceUint64 (ex_slice 1), ''__usort_max_size'' \<mapsto> VFelt 1])
          = (None,
             \<lparr>vm = \<lparr>Memory = Map.empty\<rparr>,
              ctx = \<lparr>scopeManager = \<lparr>current = [''__usort_max_size'' \<mapsto> VFelt 1],
                     enclosing = [[''positions'' \<mapsto> VSliceUint64 (ex_slice 1),
                                   ''__usort_max_size'' \<mapsto> VFelt 1]]\<rparr>\<rparr>,
              heap = (\<lambda>_. [])(0 := [1])\<rparr>))
   \<and> Op newUsortVerifyMultiplicityAssertHint
        (ex_machine [1] [''positions'' \<mapsto> VSliceUint64 (ex_slice 1), ''__usort_max_size'' \<mapsto> VFelt 1])
       = (Some AssertionLenPositionsFailed,
          ex_machine [1] [''positions'' \<mapsto> VSliceUint64 (ex_slice 1), ''__usort_max_size'' \<mapsto> VFelt 1])"
  by (simp add: createUsortVerifyMultiplicityAssertHinter_def newUsortEnterScopeHint_def
        newUsortVerifyMultiplicityAssertHint_def GetVariableValue_def EnterScope_def ex_machine_def
        ex_slice_def)

end
